theory Spec2Isabelle
  imports Complex_Main "HOL-Library.AList" "HOL-Library.Sublist"
begin

section \<open>Data model\<close>

text \<open>
  The Python sources compute with \<^verbatim>\<open>float\<close> and \<^verbatim>\<open>int\<close> values mixed freely
  (\<^verbatim>\<open>/\<close> is true division). Numbers are embedded as \<^typ>\<open>real\<close>. What the triangular scan
  emits depends on the order of its floating-point operations, so there every operation rounds
  its exact result to the nearest double; the cross-DEX scan, the ranking and the validation
  are taken in exact arithmetic. Python raises \<^verbatim>\<open>ZeroDivisionError\<close> on a
  division by zero, whereas \<^term>\<open>(x::real) / 0 = 0\<close> in HOL, so every unguarded division of the
  source is a branch of its own. Clock readings (\<^verbatim>\<open>time.time()\<close>, the \<^verbatim>\<open>timestamp\<close> and
  \<^verbatim>\<open>validation_timestamp\<close> entries) and log output are left out.
\<close>

datatype error = KeyError | ValueError | ZeroDivisionError | IndexError

text \<open>
  A liquidity pool is a dict. The scanners sniff its shape with \<^verbatim>\<open>"token0" in pool\<close> and
  the like, read some keys with \<^verbatim>\<open>pool.get(key, default)\<close> and others with \<^verbatim>\<open>pool[key]\<close>.
  Each key the code touches is a field that may be absent. \<open>token0\<close>, \<open>token1\<close> and \<open>coins\<close>
  hold the \<^verbatim>\<open>"symbol"\<close> of the token dicts stored under these keys.
\<close>

record pool =
  pid :: "string option"
  token0 :: "string option"
  token1 :: "string option"
  reserve0 :: "real option"
  reserve1 :: "real option"
  reserveUSD :: "real option"
  feeTier :: "real option"
  coins :: "string list option"
  balances :: "real list option"
  fee :: "real option"
  volumeUSD24h :: "real option"

definition empty_pool :: pool where
  "empty_pool = \<lparr>pid = None, token0 = None, token1 = None, reserve0 = None, reserve1 = None,
     reserveUSD = None, feeTier = None, coins = None, balances = None, fee = None,
     volumeUSD24h = None\<rparr>"

text \<open>Opportunities as the two scanners of \<^verbatim>\<open>analyzer.py\<close> build them.\<close>

record cross_dex =
  token_pair :: string
  opp_token0 :: string
  opp_token1 :: string
  buy_dex :: string
  buy_network :: string
  buy_pool :: string
  buy_price :: real
  sell_dex :: string
  sell_network :: string
  sell_pool :: string
  sell_price :: real
  price_diff_pct :: real
  buy_fee :: real
  sell_fee :: real
  cd_estimated_gas_cost_pct :: real
  cd_net_profit_pct :: real

record triangular =
  dex_id :: string
  network_id :: string
  token_a :: string
  token_b :: string
  token_c :: string
  price_a_to_b :: real
  price_b_to_c :: real
  price_c_to_a :: real
  round_trip_rate :: real
  pool_a_to_b :: string
  pool_b_to_c :: string
  pool_c_to_a :: string
  total_fee :: real
  tri_estimated_gas_cost_pct :: real
  tri_net_profit_pct :: real

datatype opportunity = CrossDex cross_dex | Triangular triangular


section \<open>Ranking: \<^verbatim>\<open>PriceAnalyzer.get_arbitrage_opportunities\<close>\<close>




section \<open>Validation: \<^verbatim>\<open>ArbitrageDetector\<close> in \<^verbatim>\<open>detector.py\<close>\<close>

text \<open>
  \<^verbatim>\<open>MarketDataCollector.liquidity_pools\<close> maps the key \<^verbatim>\<open>f"{dex_id}_{network_id}"\<close> to the
  pools of that venue and network; \<^verbatim>\<open>get_liquidity_pools\<close> answers an unknown key with the
  empty list. The dict is embedded as an association list in insertion order.
\<close>

type_synonym liquidity_pools = "(string \<times> pool list) list"

definition get_liquidity_pools :: "liquidity_pools \<Rightarrow> string \<Rightarrow> string \<Rightarrow> pool list" where
  "get_liquidity_pools lp dex network =
     (case map_of lp (dex @ ''_'' @ network) of None \<Rightarrow> [] | Some pools \<Rightarrow> pools)"

text \<open>The record returned for a pool id that no known pool carries.\<close>

definition placeholder_pool :: "string \<Rightarrow> pool" where
  "placeholder_pool p = empty_pool\<lparr>pid := Some p, reserveUSD := Some 500000,
     volumeUSD24h := Some 1000000\<rparr>"

text \<open>
  \<^verbatim>\<open>get_pool_details\<close> is declared to return \<^verbatim>\<open>Optional[Dict]\<close>. The loop returns the first
  pool with \<^verbatim>\<open>pool.get("id") == pool_id\<close>.
\<close>

definition get_pool_details :: "liquidity_pools \<Rightarrow> string \<Rightarrow> string \<Rightarrow> string \<Rightarrow> pool option" where
  "get_pool_details lp dex network p =
     (case find (\<lambda>pool. pid pool = Some p) (get_liquidity_pools lp dex network) of
        Some pool \<Rightarrow> Some pool
      | None \<Rightarrow> Some (placeholder_pool p))"

definition min3 :: "real \<Rightarrow> real \<Rightarrow> real \<Rightarrow> real" where
  "min3 a b c = min (min a b) c"

definition calculate_optimal_trade_size :: "real \<Rightarrow> real \<Rightarrow> real \<Rightarrow> real" where
  "calculate_optimal_trade_size buy_liquidity sell_liquidity profit_pct =
     (let base_size = min buy_liquidity sell_liquidity * 0.005;
          profit_multiplier = 1 + profit_pct * 10;
          max_size = min buy_liquidity sell_liquidity * 0.05
      in min (base_size * profit_multiplier) max_size)"

definition calculate_optimal_trade_size_triangular :: "real \<Rightarrow> real \<Rightarrow> real \<Rightarrow> real \<Rightarrow> real" where
  "calculate_optimal_trade_size_triangular l_ab l_bc l_ca profit_pct =
     (let base_size = min3 l_ab l_bc l_ca * 0.003;
          profit_multiplier = 1 + profit_pct * 8;
          max_size = min3 l_ab l_bc l_ca * 0.03
      in min (base_size * profit_multiplier) max_size)"

definition calculate_risk_score :: "real \<Rightarrow> real \<Rightarrow> real \<Rightarrow> bool \<Rightarrow> real" where
  "calculate_risk_score profit_pct buy_liquidity sell_liquidity cross_network =
     (let risk_score = 50;
          risk_score = risk_score + profit_pct * 1000;
          min_liquidity = min buy_liquidity sell_liquidity;
          risk_score = (if min_liquidity < 100000 then risk_score + 20
                        else if min_liquidity < 500000 then risk_score + 10
                        else if min_liquidity < 1000000 then risk_score + 5
                        else risk_score);
          risk_score = (if cross_network then risk_score + 15 else risk_score)
      in max 0 (min 100 risk_score))"

text \<open>
  Modelled from the spec: the end of \<^verbatim>\<open>calculate_risk_score_triangular\<close>. The source file
  stops inside this function, right after the first liquidity tier
  (\<^verbatim>\<open>if min_liquidity < 100000: risk_score += 25\<close>). The two remaining tiers (\<open>+10\<close> below
  \<open>$500k\<close>, \<open>+5\<close> below \<open>$1M\<close>) and the final clamp to \<open>[0, 100]\<close> follow section 4.5 of the
  specification; base, scale and first tier are the source's.
\<close>

definition calculate_risk_score_triangular :: "real \<Rightarrow> real \<Rightarrow> real \<Rightarrow> real \<Rightarrow> real" where
  "calculate_risk_score_triangular profit_pct l_ab l_bc l_ca =
     (let risk_score = 40;
          risk_score = risk_score + profit_pct * 1200;
          min_liquidity = min3 l_ab l_bc l_ca;
          risk_score = (if min_liquidity < 100000 then risk_score + 25
                        else if min_liquidity < 500000 then risk_score + 10
                        else if min_liquidity < 1000000 then risk_score + 5
                        else risk_score)
      in max 0 (min 100 risk_score))"

text \<open>The details dict that \<^verbatim>\<open>validate_opportunity\<close> creates and the validators fill in.\<close>

record validation_details =
  is_valid :: bool
  validation_message :: string
  expected_profit_usd :: real
  max_trade_size_usd :: real
  optimal_trade_size_usd :: real
  estimated_execution_time_ms :: real
  risk_score :: real
  token0_price_usd :: "real option"
  token1_price_usd :: "real option"
  buy_liquidity_usd :: "real option"
  sell_liquidity_usd :: "real option"
  liquidity_a_to_b :: "real option"
  liquidity_b_to_c :: "real option"
  liquidity_c_to_a :: "real option"

definition initial_details :: validation_details where
  "initial_details = \<lparr>is_valid = False, validation_message = [], expected_profit_usd = 0,
     max_trade_size_usd = 0, optimal_trade_size_usd = 0, estimated_execution_time_ms = 0,
     risk_score = 0, token0_price_usd = None, token1_price_usd = None,
     buy_liquidity_usd = None, sell_liquidity_usd = None, liquidity_a_to_b = None,
     liquidity_b_to_c = None, liquidity_c_to_a = None\<rparr>"

text \<open>
  What a validator needs from its surroundings: \<open>min_liquidity\<close> is the attribute of that name,
  \<open>pool_details\<close> is the method \<^verbatim>\<open>self.get_pool_details\<close> with its declared result type
  \<^verbatim>\<open>Optional[Dict]\<close>, \<open>token_price sym\<close> is \<^verbatim>\<open>self.market_data.get_token_price(sym.lower())\<close>.
  The bodies of \<^verbatim>\<open>estimate_execution_time\<close> and \<^verbatim>\<open>estimate_execution_time_triangular\<close> lie
  beyond the end of the source file; they are the parameters \<open>execution_time\<close> and
  \<open>execution_time_triangular\<close>.
\<close>

record detector =
  min_liquidity :: real
  pool_details :: "string \<Rightarrow> string \<Rightarrow> string \<Rightarrow> pool option"
  token_price :: "string \<Rightarrow> real option"
  execution_time :: "string \<Rightarrow> string \<Rightarrow> real"
  execution_time_triangular :: "string \<Rightarrow> real"

text \<open>\<^verbatim>\<open>not pool\<close>: \<^verbatim>\<open>None\<close> and the empty dict are falsy.\<close>

definition falsy :: "pool option \<Rightarrow> bool" where
  "falsy r = (case r of None \<Rightarrow> True | Some p \<Rightarrow> p = empty_pool)"

text \<open>\<^verbatim>\<open>price or 1.0\<close>: \<^verbatim>\<open>None\<close> and \<open>0\<close> are falsy.\<close>

definition or_one :: "real option \<Rightarrow> real" where
  "or_one r = (case r of None \<Rightarrow> 1 | Some v \<Rightarrow> if v = 0 then 1 else v)"

text \<open>\<^verbatim>\<open>pool.get("reserveUSD", 0)\<close>; the pool is truthy where this is called.\<close>

definition get_reserveUSD :: "pool option \<Rightarrow> real" where
  "get_reserveUSD r = (case r of None \<Rightarrow> 0 | Some p \<Rightarrow> (case reserveUSD p of None \<Rightarrow> 0 | Some v \<Rightarrow> v))"

definition validate_cross_dex_opportunity ::
  "detector \<Rightarrow> cross_dex \<Rightarrow> validation_details \<Rightarrow> bool \<times> validation_details" where
  "validate_cross_dex_opportunity self opportunity details =
     (let token0_price = or_one (token_price self (opp_token0 opportunity));
          token1_price = or_one (token_price self (opp_token1 opportunity));
          buy_pool_d = pool_details self (buy_dex opportunity) (buy_network opportunity) (buy_pool opportunity);
          sell_pool_d = pool_details self (sell_dex opportunity) (sell_network opportunity) (sell_pool opportunity)
      in if falsy buy_pool_d \<or> falsy sell_pool_d
         then (False, details\<lparr>validation_message := ''Could not retrieve pool details''\<rparr>)
         else
           let buy_liquidity = get_reserveUSD buy_pool_d;
               sell_liquidity = get_reserveUSD sell_pool_d
           in if buy_liquidity < min_liquidity self \<or> sell_liquidity < min_liquidity self
              then (False, details\<lparr>validation_message := ''Insufficient liquidity''\<rparr>)
              else
                let max_trade_size = min buy_liquidity sell_liquidity * 0.05;
                    optimal_trade_size = calculate_optimal_trade_size buy_liquidity sell_liquidity
                                           (cd_net_profit_pct opportunity);
                    expected_profit = optimal_trade_size * cd_net_profit_pct opportunity;
                    risk = calculate_risk_score (cd_net_profit_pct opportunity) buy_liquidity
                             sell_liquidity (buy_network opportunity \<noteq> sell_network opportunity);
                    exec_ms = execution_time self (buy_network opportunity) (sell_network opportunity)
                in (True, details\<lparr>is_valid := True,
                      validation_message := ''Opportunity validated successfully'',
                      expected_profit_usd := expected_profit,
                      max_trade_size_usd := max_trade_size,
                      optimal_trade_size_usd := optimal_trade_size,
                      estimated_execution_time_ms := exec_ms,
                      risk_score := risk,
                      token0_price_usd := Some token0_price,
                      token1_price_usd := Some token1_price,
                      buy_liquidity_usd := Some buy_liquidity,
                      sell_liquidity_usd := Some sell_liquidity\<rparr>))"

definition validate_triangular_opportunity ::
  "detector \<Rightarrow> triangular \<Rightarrow> validation_details \<Rightarrow> bool \<times> validation_details" where
  "validate_triangular_opportunity self opportunity details =
     (let pool_ab = pool_details self (dex_id opportunity) (network_id opportunity) (pool_a_to_b opportunity);
          pool_bc = pool_details self (dex_id opportunity) (network_id opportunity) (pool_b_to_c opportunity);
          pool_ca = pool_details self (dex_id opportunity) (network_id opportunity) (pool_c_to_a opportunity)
      in if falsy pool_ab \<or> falsy pool_bc \<or> falsy pool_ca
         then (False, details\<lparr>validation_message := ''Could not retrieve pool details''\<rparr>)
         else
           let l_ab = get_reserveUSD pool_ab;
               l_bc = get_reserveUSD pool_bc;
               l_ca = get_reserveUSD pool_ca;
               smallest = min3 l_ab l_bc l_ca
           in if smallest < min_liquidity self
              then (False, details\<lparr>validation_message := ''Insufficient liquidity''\<rparr>)
              else
                let max_trade_size = smallest * 0.03;
                    optimal_trade_size = calculate_optimal_trade_size_triangular l_ab l_bc l_ca
                                           (round_trip_rate opportunity - 1);
                    expected_profit = optimal_trade_size *
                                        (round_trip_rate opportunity - 1 - total_fee opportunity);
                    risk = calculate_risk_score_triangular (round_trip_rate opportunity - 1)
                             l_ab l_bc l_ca;
                    exec_ms = execution_time_triangular self (network_id opportunity)
                in (True, details\<lparr>is_valid := True,
                      validation_message := ''Opportunity validated successfully'',
                      expected_profit_usd := expected_profit,
                      max_trade_size_usd := max_trade_size,
                      optimal_trade_size_usd := optimal_trade_size,
                      estimated_execution_time_ms := exec_ms,
                      risk_score := risk,
                      liquidity_a_to_b := Some l_ab,
                      liquidity_b_to_c := Some l_bc,
                      liquidity_c_to_a := Some l_ca\<rparr>))"

text \<open>
  \<^verbatim>\<open>validate_opportunity\<close> dispatches on \<^verbatim>\<open>opportunity["type"]\<close>. Neither validator raises
  in this model, so the \<^verbatim>\<open>except\<close> branch is never taken.
\<close>

fun validate_opportunity :: "detector \<Rightarrow> opportunity \<Rightarrow> bool \<times> validation_details" where
  "validate_opportunity self (CrossDex opp) = validate_cross_dex_opportunity self opp initial_details"
| "validate_opportunity self (Triangular opp) = validate_triangular_opportunity self opp initial_details"

text \<open>The detector of the source: \<^verbatim>\<open>self.get_pool_details\<close> is its own method.\<close>

definition arbitrage_detector ::
  "liquidity_pools \<Rightarrow> real \<Rightarrow> (string \<Rightarrow> real option) \<Rightarrow> (string \<Rightarrow> string \<Rightarrow> real) \<Rightarrow> (string \<Rightarrow> real) \<Rightarrow> detector" where
  "arbitrage_detector lp min_liq tp et ett =
     \<lparr>min_liquidity = min_liq, pool_details = get_pool_details lp, token_price = tp,
      execution_time = et, execution_time_triangular = ett\<rparr>"

section \<open>Scanning: \<^verbatim>\<open>PriceAnalyzer\<close> in \<^verbatim>\<open>analyzer.py\<close>\<close>

subsection \<open>Strings and dicts\<close>

text \<open>\<^verbatim>\<open>s.split("_")\<close>, and the unpacking \<^verbatim>\<open>a, b = parts\<close>, which raises unless there are two parts.\<close>

fun split_sep :: "char \<Rightarrow> string \<Rightarrow> string list" where
  "split_sep c [] = [[]]"
| "split_sep c (x # xs) =
     (if x = c then [] # split_sep c xs
      else (case split_sep c xs of [] \<Rightarrow> [[x]] | w # ws \<Rightarrow> (x # w) # ws))"

definition unpack2 :: "string list \<Rightarrow> error + (string \<times> string)" where
  "unpack2 parts = (case parts of [a, b] \<Rightarrow> Inr (a, b) | _ \<Rightarrow> Inl ValueError)"

definition split_key :: "string \<Rightarrow> error + (string \<times> string)" where
  "split_key k = unpack2 (split_sep CHR ''_'' k)"

text \<open>\<^verbatim>\<open>f"{token0}_{token1}"\<close>\<close>

definition pair_key :: "string \<Rightarrow> string \<Rightarrow> string" where
  "pair_key t0 t1 = t0 @ ''_'' @ t1"

text \<open>
  \<^verbatim>\<open>all_pools\<close> is the collector's dict of pool lists. A Python dict iterates in insertion order,
  and assigning to a key that is present keeps its position: \<^const>\<open>AList.update\<close> on an
  association list.
\<close>

definition uniswap_like :: "pool \<Rightarrow> bool" where
  "uniswap_like p \<longleftrightarrow> token0 p \<noteq> None \<and> token1 p \<noteq> None \<and> reserve0 p \<noteq> None \<and> reserve1 p \<noteq> None"

definition curve_like :: "pool \<Rightarrow> bool" where
  "curve_like p \<longleftrightarrow> coins p \<noteq> None \<and> balances p \<noteq> None"

text \<open>\<^verbatim>\<open>num / den if den > 0 else 0\<close>\<close>

definition guarded_div :: "real \<Rightarrow> real \<Rightarrow> real" where
  "guarded_div num den = (if den > 0 then num / den else 0)"

subsection \<open>Price observations per pair\<close>

record observation =
  obs_dex_id :: string
  obs_network_id :: string
  obs_pool_id :: string
  price :: real
  obs_reserves :: "real \<times> real"
  obs_reserveUSD :: "real option"
  obs_fee :: real

type_synonym pair_prices = "(string \<times> observation list) list"

text \<open>
  \<^verbatim>\<open>if pair_key not in pair_prices: pair_prices[pair_key] = []\<close> followed by
  \<^verbatim>\<open>pair_prices[pair_key].append(ob)\<close>.
\<close>

definition append_price :: "string \<Rightarrow> observation \<Rightarrow> pair_prices \<Rightarrow> pair_prices" where
  "append_price k ob pp =
     AList.update k ((case map_of pp k of None \<Rightarrow> [] | Some obs \<Rightarrow> obs) @ [ob]) pp"

text \<open>
  The observation of a Uniswap-like pool. \<^verbatim>\<open>pool["id"]\<close> raises \<^verbatim>\<open>KeyError\<close> when the key is
  absent. The four keys of the shape test are present where this is called.
\<close>

definition uniswap_entry :: "string \<Rightarrow> string \<Rightarrow> pool \<Rightarrow> error + (string \<times> observation)" where
  "uniswap_entry dex network p =
     (case (token0 p, token1 p, reserve0 p, reserve1 p) of
        (Some t0, Some t1, Some r0, Some r1) \<Rightarrow>
          (case pid p of
             None \<Rightarrow> Inl KeyError
           | Some i \<Rightarrow> Inr (pair_key t0 t1,
               \<lparr>obs_dex_id = dex, obs_network_id = network, obs_pool_id = i,
                price = guarded_div r1 r0, obs_reserves = (r0, r1),
                obs_reserveUSD = Some (case reserveUSD p of None \<Rightarrow> 0 | Some v \<Rightarrow> v),
                obs_fee = (case feeTier p of None \<Rightarrow> 0.003 | Some f \<Rightarrow> f)\<rparr>))
      | _ \<Rightarrow> Inl KeyError)"

text \<open>
  The index pairs of \<^verbatim>\<open>for i in range(len(coins) - 1): for j in range(i + 1, len(coins))\<close>.
\<close>

definition coin_pairs :: "nat \<Rightarrow> (nat \<times> nat) list" where
  "coin_pairs n = concat (map (\<lambda>i. map (\<lambda>j. (i, j)) [i + 1 ..< n]) [0 ..< n - 1])"

text \<open>
  The observation of one coin pair of a Curve-like pool. \<^verbatim>\<open>balances[i]\<close> is read first, by the
  test \<^verbatim>\<open>balances[i] > 0\<close>; \<^verbatim>\<open>balances[j]\<close> is read by the division when the test succeeds,
  and otherwise only after \<^verbatim>\<open>pool["id"]\<close>, when the dict is built. Reading past the end of
  \<^verbatim>\<open>balances\<close> raises \<^verbatim>\<open>IndexError\<close>.
\<close>

definition curve_entry ::
  "string \<Rightarrow> string \<Rightarrow> pool \<Rightarrow> string list \<Rightarrow> real list \<Rightarrow> nat \<times> nat \<Rightarrow> error + (string \<times> observation)" where
  "curve_entry dex network p cs bs ij =
     (case ij of (i, j) \<Rightarrow>
        if i \<ge> length bs then Inl IndexError
        else if bs ! i > 0 \<and> j \<ge> length bs then Inl IndexError
        else (case pid p of
                None \<Rightarrow> Inl KeyError
              | Some ident \<Rightarrow>
                  if j \<ge> length bs then Inl IndexError
                  else Inr (pair_key (cs ! i) (cs ! j),
                    \<lparr>obs_dex_id = dex, obs_network_id = network, obs_pool_id = ident,
                     price = guarded_div (bs ! j) (bs ! i), obs_reserves = (bs ! i, bs ! j),
                     obs_reserveUSD = None,
                     obs_fee = (case fee p of None \<Rightarrow> 0.0004 | Some f \<Rightarrow> f)\<rparr>)))"

fun collect_entries ::
  "('a \<Rightarrow> error + (string \<times> observation)) \<Rightarrow> 'a list \<Rightarrow> pair_prices \<Rightarrow> error + pair_prices" where
  "collect_entries f [] pp = Inr pp"
| "collect_entries f (x # xs) pp =
     (case f x of Inl e \<Rightarrow> Inl e | Inr (k, ob) \<Rightarrow> collect_entries f xs (append_price k ob pp))"

text \<open>The body of \<^verbatim>\<open>for pool in pools\<close>: a pool of neither shape is passed over.\<close>

definition pool_prices :: "string \<Rightarrow> string \<Rightarrow> pool \<Rightarrow> pair_prices \<Rightarrow> error + pair_prices" where
  "pool_prices dex network p pp =
     (if uniswap_like p then collect_entries (uniswap_entry dex network) [p] pp
      else if curve_like p then
        (case (coins p, balances p) of
           (Some cs, Some bs) \<Rightarrow>
             collect_entries (curve_entry dex network p cs bs) (coin_pairs (length cs)) pp
         | _ \<Rightarrow> Inr pp)
      else Inr pp)"

fun pools_prices :: "string \<Rightarrow> string \<Rightarrow> pool list \<Rightarrow> pair_prices \<Rightarrow> error + pair_prices" where
  "pools_prices dex network [] pp = Inr pp"
| "pools_prices dex network (p # ps) pp =
     (case pool_prices dex network p pp of Inl e \<Rightarrow> Inl e | Inr pp' \<Rightarrow> pools_prices dex network ps pp')"

text \<open>
  The first loop of \<^verbatim>\<open>analyze_cross_dex_opportunities\<close>;
  \<^verbatim>\<open>dex_id, network_id = key.split("_")\<close> comes before the pools of the group are looked at.
\<close>

fun groups_prices :: "liquidity_pools \<Rightarrow> pair_prices \<Rightarrow> error + pair_prices" where
  "groups_prices [] pp = Inr pp"
| "groups_prices ((key, pools) # rest) pp =
     (case split_key key of
        Inl e \<Rightarrow> Inl e
      | Inr (dex, network) \<Rightarrow>
          (case pools_prices dex network pools pp of
             Inl e \<Rightarrow> Inl e
           | Inr pp' \<Rightarrow> groups_prices rest pp'))"

definition extract_pair_prices :: "liquidity_pools \<Rightarrow> error + pair_prices" where
  "extract_pair_prices all_pools = groups_prices all_pools []"

subsection \<open>Cross-DEX scan\<close>

text \<open>
  \<^verbatim>\<open>min(prices, key=...)\<close> and \<^verbatim>\<open>max(prices, key=...)\<close> return the first element that
  attains the extreme key; the second argument is the best element so far.
\<close>

fun min_by :: "('a \<Rightarrow> real) \<Rightarrow> 'a \<Rightarrow> 'a list \<Rightarrow> 'a" where
  "min_by k m [] = m"
| "min_by k m (x # xs) = min_by k (if k x < k m then x else m) xs"

fun max_by :: "('a \<Rightarrow> real) \<Rightarrow> 'a \<Rightarrow> 'a list \<Rightarrow> 'a" where
  "max_by k m [] = m"
| "max_by k m (x # xs) = max_by k (if k x > k m then x else m) xs"

definition lowest_price :: "observation list \<Rightarrow> observation" where
  "lowest_price prices = min_by price (hd prices) (tl prices)"

definition highest_price :: "observation list \<Rightarrow> observation" where
  "highest_price prices = max_by price (hd prices) (tl prices)"

definition cd_gas :: real where
  "cd_gas = 0.001"

text \<open>
  The body of \<^verbatim>\<open>for pair_key, prices in pair_prices.items()\<close>: \<open>Inr None\<close> is a pair that is
  passed over, \<open>Inr (Some opp)\<close> an opportunity that is appended. The division by the lowest price
  has no guard in the source. \<open>thr\<close> is \<^verbatim>\<open>MIN_PROFIT_THRESHOLD\<close>. Lists of observations are never
  empty, and \<^const>\<open>hd\<close> and \<^const>\<open>tl\<close> are reached for two elements or more only.
\<close>

definition analyze_pair :: "real \<Rightarrow> string \<Rightarrow> observation list \<Rightarrow> error + cross_dex option" where
  "analyze_pair thr k prices =
     (if length prices < 2 then Inr None
      else
        let lo = lowest_price prices;
            hi = highest_price prices
        in if price lo = 0 then Inl ZeroDivisionError
           else
             let diff = (price hi - price lo) / price lo;
                 net = diff - obs_fee lo - obs_fee hi - cd_gas
             in if net \<ge> thr then
                  (case split_key k of
                     Inl e \<Rightarrow> Inl e
                   | Inr (t0, t1) \<Rightarrow> Inr (Some
                       \<lparr>token_pair = k, opp_token0 = t0, opp_token1 = t1,
                        buy_dex = obs_dex_id lo, buy_network = obs_network_id lo,
                        buy_pool = obs_pool_id lo, buy_price = price lo,
                        sell_dex = obs_dex_id hi, sell_network = obs_network_id hi,
                        sell_pool = obs_pool_id hi, sell_price = price hi,
                        price_diff_pct = diff, buy_fee = obs_fee lo, sell_fee = obs_fee hi,
                        cd_estimated_gas_cost_pct = cd_gas, cd_net_profit_pct = net\<rparr>))
                else Inr None)"

text \<open>
  The second loop. The result is \<^verbatim>\<open>self.price_discrepancies\<close> when the method ends, and the
  exception that ended it, if one did: opportunities appended before an exception stay in the
  list.
\<close>

fun scan_pairs :: "real \<Rightarrow> pair_prices \<Rightarrow> opportunity list \<Rightarrow> opportunity list \<times> error option" where
  "scan_pairs thr [] acc = (acc, None)"
| "scan_pairs thr ((k, prices) # rest) acc =
     (case analyze_pair thr k prices of
        Inl e \<Rightarrow> (acc, Some e)
      | Inr None \<Rightarrow> scan_pairs thr rest acc
      | Inr (Some opp) \<Rightarrow> scan_pairs thr rest (acc @ [CrossDex opp]))"

definition analyze_cross_dex_opportunities ::
  "real \<Rightarrow> liquidity_pools \<Rightarrow> opportunity list \<Rightarrow> opportunity list \<times> error option" where
  "analyze_cross_dex_opportunities thr all_pools price_discrepancies =
     (case extract_pair_prices all_pools of
        Inl e \<Rightarrow> (price_discrepancies, Some e)
      | Inr pp \<Rightarrow> scan_pairs thr pp price_discrepancies)"

subsection \<open>Double-precision arithmetic\<close>







subsection \<open>Triangular scan\<close>

















section \<open>Notions of the specification\<close>

text \<open>
  The liquidity-tier penalty as section 4.5 of the specification words it, for both kinds of
  opportunity: \<open>+20\<close> below \<open>$100k\<close>, \<open>+10\<close> below \<open>$500k\<close>, \<open>+5\<close> below \<open>$1M\<close>, else \<open>0\<close>; and
  the clamp to \<open>[0, 100]\<close>.
\<close>

definition liquidity_tier_penalty :: "real \<Rightarrow> real" where
  "liquidity_tier_penalty l =
     (if l < 100000 then 20 else if l < 500000 then 10 else if l < 1000000 then 5 else 0)"

definition clamp_score :: "real \<Rightarrow> real" where
  "clamp_score x = max 0 (min 100 x)"








text \<open>
  Price difference and net profit of a buy and a sell observation, as section 4.2 of the
  specification words them, and the opportunity that the scanner builds from the two.
\<close>

definition cd_price_diff_pct :: "observation \<Rightarrow> observation \<Rightarrow> real" where
  "cd_price_diff_pct buy sell = (price sell - price buy) / price buy"

definition cd_net :: "observation \<Rightarrow> observation \<Rightarrow> real" where
  "cd_net buy sell = cd_price_diff_pct buy sell - obs_fee buy - obs_fee sell - 0.001"

definition cross_opportunity :: "string \<Rightarrow> string \<Rightarrow> string \<Rightarrow> observation \<Rightarrow> observation \<Rightarrow> cross_dex" where
  "cross_opportunity k t0 t1 buy sell =
     \<lparr>token_pair = k, opp_token0 = t0, opp_token1 = t1,
      buy_dex = obs_dex_id buy, buy_network = obs_network_id buy, buy_pool = obs_pool_id buy,
      buy_price = price buy,
      sell_dex = obs_dex_id sell, sell_network = obs_network_id sell, sell_pool = obs_pool_id sell,
      sell_price = price sell,
      price_diff_pct = cd_price_diff_pct buy sell, buy_fee = obs_fee buy, sell_fee = obs_fee sell,
      cd_estimated_gas_cost_pct = 0.001, cd_net_profit_pct = cd_net buy sell\<rparr>"

text \<open>
  What one pair contributes to a scan that meets no exception, and the pair lists whose scan
  meets none: every pair with two observations or more has a non-zero lowest price and a key
  that splits into two symbols.
\<close>

definition emitted_for :: "real \<Rightarrow> string \<times> observation list \<Rightarrow> opportunity list" where
  "emitted_for thr kp =
     (case analyze_pair thr (fst kp) (snd kp) of Inr (Some opp) \<Rightarrow> [CrossDex opp] | _ \<Rightarrow> [])"

definition scannable :: "pair_prices \<Rightarrow> bool" where
  "scannable pp =
     list_all (\<lambda>kp. length (snd kp) < 2 \<or>
        (price (lowest_price (snd kp)) \<noteq> 0 \<and>
         (case split_key (fst kp) of Inl _ \<Rightarrow> False | Inr _ \<Rightarrow> True))) pp"

text \<open>
  The default of \<^verbatim>\<open>MIN_PROFIT_THRESHOLD\<close> in \<^verbatim>\<open>config.py\<close>.
\<close>

definition default_threshold :: real where
  "default_threshold = 0.005"

section \<open>Examples\<close>

text \<open>A cross-DEX opportunity with a given pool pair and net profit, all else fixed.\<close>

definition example_cross :: "string \<Rightarrow> string \<Rightarrow> real \<Rightarrow> cross_dex" where
  "example_cross bp sp net =
     \<lparr>token_pair = ''WETH_USDC'', opp_token0 = ''WETH'', opp_token1 = ''USDC'',
      buy_dex = ''uniswap'', buy_network = ''ethereum'', buy_pool = bp, buy_price = 2000,
      sell_dex = ''sushiswap'', sell_network = ''ethereum'', sell_pool = sp,
      sell_price = 2000 * (1 + net + 0.001), price_diff_pct = net + 0.001, buy_fee = 0,
      sell_fee = 0, cd_estimated_gas_cost_pct = 0.001, cd_net_profit_pct = net\<rparr>"

definition example_opp :: "real \<Rightarrow> opportunity" where
  "example_opp net = CrossDex (example_cross ''0xb'' ''0xs'' net)"

text \<open>
  A triangular opportunity as the scanner builds it from three edges with prices \<open>2000\<close>,
  \<open>1.02\<close>, \<open>0.0005\<close> and a fee of \<open>0.003\<close> each.
\<close>

definition example_triangular :: triangular where
  "example_triangular =
     \<lparr>dex_id = ''uniswap'', network_id = ''ethereum'', token_a = ''WETH'', token_b = ''USDC'',
      token_c = ''DAI'', price_a_to_b = 2000, price_b_to_c = 1.02, price_c_to_a = 0.0005,
      round_trip_rate = 1.02, pool_a_to_b = ''0x1'', pool_b_to_c = ''0x2'', pool_c_to_a = ''0x3'',
      total_fee = 0.009, tri_estimated_gas_cost_pct = 0.002, tri_net_profit_pct = 0.009\<rparr>"

text \<open>
  Market data with one known pool, and detectors over it: the source's own, and one whose pool
  lookup finds nothing for two pool ids and thin pools for all others.
\<close>

definition example_pools :: liquidity_pools where
  "example_pools = [(''uniswap_ethereum'', [(placeholder_pool ''0xa'')\<lparr>reserveUSD := Some 50\<rparr>])]"


definition failing_lookup_detector :: detector where
  "failing_lookup_detector =
     \<lparr>min_liquidity = 100000,
      pool_details = (\<lambda>dex network p.
         if p = ''0xb'' \<or> p = ''0x2'' then None else Some ((placeholder_pool p)\<lparr>reserveUSD := Some 50\<rparr>)),
      token_price = (\<lambda>_. None), execution_time = (\<lambda>_ _. 0), execution_time_triangular = (\<lambda>_. 0)\<rparr>"


text \<open>
  A Uniswap-like pool with the default fee.
\<close>

definition two_token_pool :: "string \<Rightarrow> string \<Rightarrow> string \<Rightarrow> real \<Rightarrow> real \<Rightarrow> pool" where
  "two_token_pool i t0 t1 r0 r1 =
     empty_pool\<lparr>pid := Some i, token0 := Some t0, token1 := Some t1, reserve0 := Some r0,
       reserve1 := Some r1, reserveUSD := Some 500000\<rparr>"








text \<open>
  Pool snapshots: scenario A of the specification; a pair with an empty reserve; the same with a
  profitable pair behind it; one pair listed in both token orders.
\<close>

definition zero_fee_pool :: "string \<Rightarrow> string \<Rightarrow> string \<Rightarrow> real \<Rightarrow> real \<Rightarrow> pool" where
  "zero_fee_pool i t0 t1 r0 r1 = (two_token_pool i t0 t1 r0 r1)\<lparr>feeTier := Some 0\<rparr>"

definition scenario_a_pools :: liquidity_pools where
  "scenario_a_pools =
     [(''uniswap_ethereum'', [zero_fee_pool ''0x1'' ''WETH'' ''USDC'' 1 2000]),
      (''sushiswap_ethereum'', [zero_fee_pool ''0x2'' ''WETH'' ''USDC'' 1 2050])]"

definition zero_reserve_pools :: liquidity_pools where
  "zero_reserve_pools =
     [(''uniswap_ethereum'', [two_token_pool ''0x1'' ''WETH'' ''USDC'' 0 1000]),
      (''sushiswap_ethereum'', [two_token_pool ''0x2'' ''WETH'' ''USDC'' 1 2000])]"

definition blocked_pools :: liquidity_pools where
  "blocked_pools =
     [(''uniswap_ethereum'', [two_token_pool ''0x3'' ''LINK'' ''DAI'' 0 1000,
                              zero_fee_pool ''0x1'' ''WETH'' ''USDC'' 1 2000]),
      (''sushiswap_ethereum'', [two_token_pool ''0x4'' ''LINK'' ''DAI'' 1 7,
                                zero_fee_pool ''0x2'' ''WETH'' ''USDC'' 1 2050])]"

definition swapped_pools :: liquidity_pools where
  "swapped_pools =
     [(''uniswap_ethereum'', [two_token_pool ''0x1'' ''WETH'' ''USDC'' 1 2000]),
      (''sushiswap_ethereum'', [two_token_pool ''0x2'' ''USDC'' ''WETH'' 2100 1])]"

text \<open>
  The observation of an example pool.
\<close>

definition example_obs :: "string \<Rightarrow> string \<Rightarrow> string \<Rightarrow> real \<Rightarrow> real \<Rightarrow> real \<Rightarrow> observation" where
  "example_obs dex network i r0 r1 f =
     \<lparr>obs_dex_id = dex, obs_network_id = network, obs_pool_id = i, price = guarded_div r1 r0,
      obs_reserves = (r0, r1), obs_reserveUSD = Some 500000, obs_fee = f\<rparr>"

definition obs_a :: observation where
  "obs_a = example_obs ''uniswap'' ''ethereum'' ''0x1'' 1 2000 0"

definition obs_b :: observation where
  "obs_b = example_obs ''sushiswap'' ''ethereum'' ''0x2'' 1 2050 0"

definition obs_c :: observation where
  "obs_c = example_obs ''uniswap'' ''ethereum'' ''0x3'' 0 1000 0.003"

definition obs_d :: observation where
  "obs_d = example_obs ''sushiswap'' ''ethereum'' ''0x4'' 1 7 0.003"

definition obs_e :: observation where
  "obs_e = example_obs ''uniswap'' ''ethereum'' ''0x1'' 1 2000 0.003"

definition obs_f :: observation where
  "obs_f = example_obs ''sushiswap'' ''ethereum'' ''0x2'' 2100 1 0.003"

section \<open>Properties of the ranking\<close>












section \<open>Properties of the risk scores\<close>

lemma clamp_score_bounds: "0 \<le> clamp_score x \<and> clamp_score x \<le> 100"
  by (simp add: clamp_score_def)

lemma tier_add:
  "(if m < 100000 then r + 20 else if m < 500000 then r + 10
    else if m < 1000000 then r + 5 else r) = r + liquidity_tier_penalty m"
  by (simp add: liquidity_tier_penalty_def)

lemma tier_add_tri:
  "(if m < 100000 then r + 25 else if m < 500000 then r + 10
    else if m < 1000000 then r + 5 else r) =
   r + (if m < 100000 then 25 else liquidity_tier_penalty m)"
  by (simp add: liquidity_tier_penalty_def)

lemma risk_cross_eq:
  "calculate_risk_score p bl sl cn =
     clamp_score (50 + p * 1000 + liquidity_tier_penalty (min bl sl) + (if cn then 15 else 0))"
  unfolding calculate_risk_score_def Let_def tier_add clamp_score_def
  by (cases cn) (simp_all only: if_True if_False add_0_right)

lemma risk_tri_eq:
  "calculate_risk_score_triangular p a b c =
     clamp_score (40 + p * 1200 +
       (if min3 a b c < 100000 then 25 else liquidity_tier_penalty (min3 a b c)))"
  unfolding calculate_risk_score_triangular_def Let_def tier_add_tri clamp_score_def ..

text \<open>
  C9, as the code has it. The cross-DEX risk score is \<open>50 + profit_pct * 1000\<close> plus the
  liquidity-tier penalty of the smaller pool (\<open>+20\<close>, \<open>+10\<close>, \<open>+5\<close> or \<open>0\<close>) plus \<open>15\<close> for a
  cross-network trade, clamped to \<open>[0, 100]\<close>. The triangular risk score is
  \<open>40 + profit_pct * 1200\<close> plus a penalty for the smallest pool that is \<open>+25\<close> below \<open>$100k\<close>
  and the tier penalty above that, clamped to \<open>[0, 100]\<close>. Both lie in \<open>[0, 100]\<close> for all
  inputs.
\<close>

theorem risk_score_formula:
  "calculate_risk_score p bl sl cn =
     clamp_score (50 + p * 1000 + liquidity_tier_penalty (min bl sl) + (if cn then 15 else 0)) \<and>
   calculate_risk_score_triangular p a b c =
     clamp_score (40 + p * 1200 +
       (if min3 a b c < 100000 then 25 else liquidity_tier_penalty (min3 a b c))) \<and>
   0 \<le> calculate_risk_score p bl sl cn \<and> calculate_risk_score p bl sl cn \<le> 100 \<and>
   0 \<le> calculate_risk_score_triangular p a b c \<and> calculate_risk_score_triangular p a b c \<le> 100"
proof -
  note c = risk_cross_eq[of p bl sl cn] and t = risk_tri_eq[of p a b c]
  show ?thesis
    unfolding c t using clamp_score_bounds by blast
qed

lemma min3_same: "min3 x x x = x"
  by (simp add: min3_def)

text \<open>
  C9 as stated fails for triangular opportunities: with three pools of \<open>$50,000\<close> and no profit
  the code gives \<open>40 + 25 = 65\<close>, the stated formula \<open>40 + 20 = 60\<close>.
\<close>

theorem risk_score_triangular_counterexample:
  "calculate_risk_score_triangular 0 50000 50000 50000 = 65 \<and>
   clamp_score (40 + 0 * 1200 + liquidity_tier_penalty (min3 50000 50000 50000)) = 60"
  unfolding risk_tri_eq min3_same
  by (simp add: liquidity_tier_penalty_def clamp_score_def)

section \<open>Properties of the validation\<close>

lemma get_pool_details_Some: "\<exists>pool. get_pool_details lp dex network p = Some pool"
  by (simp add: get_pool_details_def split: option.split)

lemma get_pool_details_unknown:
  "find (\<lambda>pool. pid pool = Some p) (get_liquidity_pools lp dex network) = None \<Longrightarrow>
   get_pool_details lp dex network p = Some (placeholder_pool p)"
  by (simp add: get_pool_details_def)

lemma placeholder_not_empty: "placeholder_pool p \<noteq> empty_pool"
  by (simp add: placeholder_pool_def empty_pool_def)

lemma get_pool_details_truthy: "\<not> falsy (get_pool_details lp dex network p)"
proof (cases "find (\<lambda>pool. pid pool = Some p) (get_liquidity_pools lp dex network)")
  case None
  then show ?thesis
    by (simp add: get_pool_details_def falsy_def placeholder_not_empty)
next
  case (Some pool)
  then have "pid pool = Some p" by (auto simp: find_Some_iff)
  then have "pool \<noteq> empty_pool" by (auto simp: empty_pool_def)
  with Some show ?thesis by (simp add: get_pool_details_def falsy_def)
qed

lemma placeholder_reserveUSD: "get_reserveUSD (Some (placeholder_pool p)) = 500000"
  by (simp add: get_reserveUSD_def placeholder_pool_def empty_pool_def)

lemma cross_rejected_missing:
  assumes "falsy (pool_details self (buy_dex opp) (buy_network opp) (buy_pool opp)) \<or>
           falsy (pool_details self (sell_dex opp) (sell_network opp) (sell_pool opp))"
  shows "validate_cross_dex_opportunity self opp d =
           (False, d\<lparr>validation_message := ''Could not retrieve pool details''\<rparr>)"
  using assms unfolding validate_cross_dex_opportunity_def Let_def by (simp only: if_True)

lemma tri_rejected_missing:
  assumes "falsy (pool_details self (dex_id opp) (network_id opp) (pool_a_to_b opp)) \<or>
           falsy (pool_details self (dex_id opp) (network_id opp) (pool_b_to_c opp)) \<or>
           falsy (pool_details self (dex_id opp) (network_id opp) (pool_c_to_a opp))"
  shows "validate_triangular_opportunity self opp d =
           (False, d\<lparr>validation_message := ''Could not retrieve pool details''\<rparr>)"
  using assms unfolding validate_triangular_opportunity_def Let_def by (simp only: if_True)

lemma cross_valid_iff:
  "fst (validate_cross_dex_opportunity self opp d) \<longleftrightarrow>
     \<not> falsy (pool_details self (buy_dex opp) (buy_network opp) (buy_pool opp)) \<and>
     \<not> falsy (pool_details self (sell_dex opp) (sell_network opp) (sell_pool opp)) \<and>
     \<not> get_reserveUSD (pool_details self (buy_dex opp) (buy_network opp) (buy_pool opp)) < min_liquidity self \<and>
     \<not> get_reserveUSD (pool_details self (sell_dex opp) (sell_network opp) (sell_pool opp)) < min_liquidity self"
  unfolding validate_cross_dex_opportunity_def Let_def by (simp only: fst_conv split: if_split) blast



lemma falsy_None: "r = None \<Longrightarrow> falsy r"
  by (simp add: falsy_def)

text \<open>
  C5. For every detector and every opportunity: if the pool lookup yields no record for a leg
  (the buy or the sell pool of a cross-DEX opportunity, one of the three pools of a triangular
  one), the result of \<^verbatim>\<open>validate_opportunity\<close> is a rejection whose message is
  \<^verbatim>\<open>"Could not retrieve pool details"\<close>, whatever the liquidity of the other legs and the
  liquidity threshold are: the check comes before the liquidity check.
\<close>

theorem pool_lookup_failure_rejected:
  "((pool_details self (buy_dex c) (buy_network c) (buy_pool c) = None \<or>
     pool_details self (sell_dex c) (sell_network c) (sell_pool c) = None) \<longrightarrow>
    validate_opportunity self (CrossDex c) =
      (False, initial_details\<lparr>validation_message := ''Could not retrieve pool details''\<rparr>)) \<and>
   ((pool_details self (dex_id t) (network_id t) (pool_a_to_b t) = None \<or>
     pool_details self (dex_id t) (network_id t) (pool_b_to_c t) = None \<or>
     pool_details self (dex_id t) (network_id t) (pool_c_to_a t) = None) \<longrightarrow>
    validate_opportunity self (Triangular t) =
      (False, initial_details\<lparr>validation_message := ''Could not retrieve pool details''\<rparr>))"
proof (intro conjI impI)
  assume "pool_details self (buy_dex c) (buy_network c) (buy_pool c) = None \<or>
     pool_details self (sell_dex c) (sell_network c) (sell_pool c) = None"
  then have "falsy (pool_details self (buy_dex c) (buy_network c) (buy_pool c)) \<or>
     falsy (pool_details self (sell_dex c) (sell_network c) (sell_pool c))"
    using falsy_None by blast
  then show "validate_opportunity self (CrossDex c) =
      (False, initial_details\<lparr>validation_message := ''Could not retrieve pool details''\<rparr>)"
    by (simp only: validate_opportunity.simps cross_rejected_missing)
next
  assume "pool_details self (dex_id t) (network_id t) (pool_a_to_b t) = None \<or>
     pool_details self (dex_id t) (network_id t) (pool_b_to_c t) = None \<or>
     pool_details self (dex_id t) (network_id t) (pool_c_to_a t) = None"
  then have "falsy (pool_details self (dex_id t) (network_id t) (pool_a_to_b t)) \<or>
     falsy (pool_details self (dex_id t) (network_id t) (pool_b_to_c t)) \<or>
     falsy (pool_details self (dex_id t) (network_id t) (pool_c_to_a t))"
    using falsy_None by blast
  then show "validate_opportunity self (Triangular t) =
      (False, initial_details\<lparr>validation_message := ''Could not retrieve pool details''\<rparr>)"
    by (simp only: validate_opportunity.simps tri_rejected_missing)
qed

lemma example_cross_sel:
  "buy_dex (example_cross bp sp x) = ''uniswap''" "buy_network (example_cross bp sp x) = ''ethereum''"
  "buy_pool (example_cross bp sp x) = bp" "sell_dex (example_cross bp sp x) = ''sushiswap''"
  "sell_network (example_cross bp sp x) = ''ethereum''" "sell_pool (example_cross bp sp x) = sp"
  "cd_net_profit_pct (example_cross bp sp x) = x"
  by (simp_all add: example_cross_def)

lemma example_triangular_sel:
  "dex_id example_triangular = ''uniswap''" "network_id example_triangular = ''ethereum''"
  "pool_a_to_b example_triangular = ''0x1''" "pool_b_to_c example_triangular = ''0x2''"
  "pool_c_to_a example_triangular = ''0x3''" "round_trip_rate example_triangular = 1.02"
  "total_fee example_triangular = 0.009" "tri_net_profit_pct example_triangular = 0.009"
  by (simp_all add: example_triangular_def)

text \<open>
  A detector whose lookup fails for the buy pool and for the second leg; the other pools it
  returns hold \<open>$50\<close>, below the threshold, and the message is that of the lookup all the same.
\<close>

theorem pool_lookup_failure_rejected_witness:
  "pool_details failing_lookup_detector ''uniswap'' ''ethereum'' ''0xb'' = None \<and>
   get_reserveUSD (pool_details failing_lookup_detector ''sushiswap'' ''ethereum'' ''0xs'') <
     min_liquidity failing_lookup_detector \<and>
   validate_opportunity failing_lookup_detector (CrossDex (example_cross ''0xb'' ''0xs'' 0.02)) =
     (False, initial_details\<lparr>validation_message := ''Could not retrieve pool details''\<rparr>) \<and>
   pool_details failing_lookup_detector ''uniswap'' ''ethereum'' ''0x2'' = None \<and>
   validate_opportunity failing_lookup_detector (Triangular example_triangular) =
     (False, initial_details\<lparr>validation_message := ''Could not retrieve pool details''\<rparr>)"
proof -
  have a: "pool_details failing_lookup_detector ''uniswap'' ''ethereum'' ''0xb'' = None"
    and b: "pool_details failing_lookup_detector ''uniswap'' ''ethereum'' ''0x2'' = None"
    by (simp_all add: failing_lookup_detector_def)
  have l: "get_reserveUSD (pool_details failing_lookup_detector ''sushiswap'' ''ethereum'' ''0xs'') <
     min_liquidity failing_lookup_detector"
    by (simp add: failing_lookup_detector_def get_reserveUSD_def)
  show ?thesis
    using a b l
      pool_lookup_failure_rejected[of failing_lookup_detector "example_cross ''0xb'' ''0xs'' 0.02"
        example_triangular]
    by (simp only: example_cross_sel example_triangular_sel simp_thms)
qed

lemma arbitrage_detector_sel:
  "min_liquidity (arbitrage_detector lp ml tp et ett) = ml"
  "pool_details (arbitrage_detector lp ml tp et ett) = get_pool_details lp"
  by (simp_all add: arbitrage_detector_def)

lemma cross_message:
  "validation_message (snd (validate_cross_dex_opportunity self opp initial_details)) =
     (if falsy (pool_details self (buy_dex opp) (buy_network opp) (buy_pool opp)) \<or>
         falsy (pool_details self (sell_dex opp) (sell_network opp) (sell_pool opp))
      then ''Could not retrieve pool details''
      else if get_reserveUSD (pool_details self (buy_dex opp) (buy_network opp) (buy_pool opp)) < min_liquidity self \<or>
              get_reserveUSD (pool_details self (sell_dex opp) (sell_network opp) (sell_pool opp)) < min_liquidity self
      then ''Insufficient liquidity'' else ''Opportunity validated successfully'')"
  unfolding validate_cross_dex_opportunity_def Let_def by simp

lemma tri_message:
  "validation_message (snd (validate_triangular_opportunity self opp initial_details)) =
     (if falsy (pool_details self (dex_id opp) (network_id opp) (pool_a_to_b opp)) \<or>
         falsy (pool_details self (dex_id opp) (network_id opp) (pool_b_to_c opp)) \<or>
         falsy (pool_details self (dex_id opp) (network_id opp) (pool_c_to_a opp))
      then ''Could not retrieve pool details''
      else if min3 (get_reserveUSD (pool_details self (dex_id opp) (network_id opp) (pool_a_to_b opp)))
                   (get_reserveUSD (pool_details self (dex_id opp) (network_id opp) (pool_b_to_c opp)))
                   (get_reserveUSD (pool_details self (dex_id opp) (network_id opp) (pool_c_to_a opp)))
              < min_liquidity self
      then ''Insufficient liquidity'' else ''Opportunity validated successfully'')"
  unfolding validate_triangular_opportunity_def Let_def by simp

lemma own_lookup_message:
  "validation_message (snd (validate_opportunity (arbitrage_detector lp ml tp et ett) opp)) \<noteq>
     ''Could not retrieve pool details''"
proof (cases opp)
  case (CrossDex c)
  show ?thesis
    unfolding CrossDex validate_opportunity.simps cross_message arbitrage_detector_sel
    by (simp add: get_pool_details_truthy)
next
  case (Triangular t)
  show ?thesis
    unfolding Triangular validate_opportunity.simps tri_message arbitrage_detector_sel
    by (simp add: get_pool_details_truthy)
qed

lemma unknown_pools_valid:
  assumes "find (\<lambda>pool. pid pool = Some (buy_pool c))
             (get_liquidity_pools lp (buy_dex c) (buy_network c)) = None"
    and "find (\<lambda>pool. pid pool = Some (sell_pool c))
             (get_liquidity_pools lp (sell_dex c) (sell_network c)) = None"
  shows "fst (validate_opportunity (arbitrage_detector lp 100000 tp et ett) (CrossDex c))"
  unfolding validate_opportunity.simps cross_valid_iff arbitrage_detector_sel
  using get_pool_details_unknown[OF assms(1)] get_pool_details_unknown[OF assms(2)]
  by (simp add: falsy_def placeholder_not_empty placeholder_reserveUSD)

text \<open>
  C10. \<^verbatim>\<open>get_pool_details\<close> never returns \<^verbatim>\<open>None\<close>. When no known pool of the venue and
  network carries the id, it returns the placeholder record, whose \<^verbatim>\<open>reserveUSD\<close> is
  \<open>500000\<close> and passes the default threshold of \<open>$100,000\<close>. With this lookup the validator
  never rejects for a missing pool, and a cross-DEX opportunity over two unknown pool ids is
  accepted at the default threshold.
\<close>

theorem get_pool_details_never_none:
  "get_pool_details lp dex network p \<noteq> None \<and>
   (find (\<lambda>pool. pid pool = Some p) (get_liquidity_pools lp dex network) = None \<longrightarrow>
      get_pool_details lp dex network p = Some (placeholder_pool p) \<and>
      reserveUSD (placeholder_pool p) = Some 500000 \<and>
      \<not> get_reserveUSD (get_pool_details lp dex network p) < 100000) \<and>
   validation_message (snd (validate_opportunity (arbitrage_detector lp ml tp et ett) opp)) \<noteq>
     ''Could not retrieve pool details'' \<and>
   (find (\<lambda>pool. pid pool = Some (buy_pool c))
      (get_liquidity_pools lp (buy_dex c) (buy_network c)) = None \<and>
    find (\<lambda>pool. pid pool = Some (sell_pool c))
      (get_liquidity_pools lp (sell_dex c) (sell_network c)) = None \<longrightarrow>
    fst (validate_opportunity (arbitrage_detector lp 100000 tp et ett) (CrossDex c)))"
proof (intro conjI impI)
  show "get_pool_details lp dex network p \<noteq> None"
    using get_pool_details_Some[of lp dex network p] by auto
next
  assume u: "find (\<lambda>pool. pid pool = Some p) (get_liquidity_pools lp dex network) = None"
  show "get_pool_details lp dex network p = Some (placeholder_pool p)"
    by (rule get_pool_details_unknown[OF u])
  show "reserveUSD (placeholder_pool p) = Some 500000"
    by (simp add: placeholder_pool_def empty_pool_def)
  show "\<not> get_reserveUSD (get_pool_details lp dex network p) < 100000"
    by (simp add: get_pool_details_unknown[OF u] placeholder_reserveUSD)
next
  show "validation_message (snd (validate_opportunity (arbitrage_detector lp ml tp et ett) opp)) \<noteq>
     ''Could not retrieve pool details''"
    by (rule own_lookup_message)
next
  assume "find (\<lambda>pool. pid pool = Some (buy_pool c))
      (get_liquidity_pools lp (buy_dex c) (buy_network c)) = None \<and>
    find (\<lambda>pool. pid pool = Some (sell_pool c))
      (get_liquidity_pools lp (sell_dex c) (sell_network c)) = None"
  then show "fst (validate_opportunity (arbitrage_detector lp 100000 tp et ett) (CrossDex c))"
    using unknown_pools_valid by blast
qed

lemma example_pools_lookup:
  "get_liquidity_pools example_pools ''uniswap'' ''ethereum'' =
     [(placeholder_pool ''0xa'')\<lparr>reserveUSD := Some 50\<rparr>]"
  "get_liquidity_pools example_pools ''sushiswap'' ''ethereum'' = []"
  by (simp_all add: get_liquidity_pools_def example_pools_def)

lemma example_pools_find:
  "p \<noteq> ''0xa'' \<Longrightarrow> find (\<lambda>pool. pid pool = Some p)
     (get_liquidity_pools example_pools ''uniswap'' ''ethereum'') = None"
  "find (\<lambda>pool. pid pool = Some p)
     (get_liquidity_pools example_pools ''sushiswap'' ''ethereum'') = None"
  unfolding example_pools_lookup
  by (simp_all add: placeholder_pool_def empty_pool_def)

text \<open>
  Market data that knows one pool, and an opportunity over two other pool ids.
\<close>

theorem get_pool_details_never_none_witness:
  "find (\<lambda>pool. pid pool = Some ''0xb'')
     (get_liquidity_pools example_pools ''uniswap'' ''ethereum'') = None \<and>
   find (\<lambda>pool. pid pool = Some ''0xs'')
     (get_liquidity_pools example_pools ''sushiswap'' ''ethereum'') = None \<and>
   get_pool_details example_pools ''uniswap'' ''ethereum'' ''0xb'' = Some (placeholder_pool ''0xb'') \<and>
   fst (validate_opportunity (arbitrage_detector example_pools 100000 (\<lambda>_. None) (\<lambda>_ _. 0) (\<lambda>_. 0))
     (CrossDex (example_cross ''0xb'' ''0xs'' 0.02)))"
proof -
  have a: "find (\<lambda>pool. pid pool = Some ''0xb'')
     (get_liquidity_pools example_pools ''uniswap'' ''ethereum'') = None"
    by (rule example_pools_find) simp
  have b: "find (\<lambda>pool. pid pool = Some ''0xs'')
     (get_liquidity_pools example_pools ''sushiswap'' ''ethereum'') = None"
    by (rule example_pools_find)
  show ?thesis
    using a b
      get_pool_details_never_none[of example_pools "''uniswap''" "''ethereum''" "''0xb''"
        "100000" "\<lambda>_. None" "\<lambda>_ _. 0" "\<lambda>_. 0" "example_opp 0.02" "example_cross ''0xb'' ''0xs'' 0.02"]
    by (simp only: example_cross_sel simp_thms)
qed










section \<open>Properties of the cross-DEX scan\<close>

lemma min_by_in: "min_by k m xs \<in> set (m # xs)"
  by (induction xs arbitrary: m) auto

lemma max_by_in: "max_by k m xs \<in> set (m # xs)"
  by (induction xs arbitrary: m) auto

lemma min_by_le_start: "k (min_by k m xs) \<le> k m"
proof (induction xs arbitrary: m)
  case Nil
  show ?case by simp
next
  case (Cons x xs)
  show ?case using Cons[of "if k x < k m then x else m"] by (simp split: if_splits)
qed

lemma max_by_ge_start: "k m \<le> k (max_by k m xs)"
proof (induction xs arbitrary: m)
  case Nil
  show ?case by simp
next
  case (Cons x xs)
  show ?case using Cons[of "if k x > k m then x else m"] by (simp split: if_splits)
qed

lemma min_by_le: "x \<in> set (m # xs) \<Longrightarrow> k (min_by k m xs) \<le> k x"
proof (induction xs arbitrary: m)
  case Nil
  then show ?case by simp
next
  case (Cons y ys)
  let ?m = "if k y < k m then y else m"
  have s: "k (min_by k ?m ys) \<le> k ?m" by (rule min_by_le_start)
  from Cons.prems consider "x = m" | "x = y" | "x \<in> set ys" by auto
  then show ?case
  proof cases
    case 1
    with s show ?thesis by (simp split: if_splits)
  next
    case 2
    with s show ?thesis by (simp split: if_splits)
  next
    case 3
    then have "k (min_by k ?m ys) \<le> k x" by (intro Cons.IH) simp
    then show ?thesis by simp
  qed
qed

lemma max_by_ge: "x \<in> set (m # xs) \<Longrightarrow> k x \<le> k (max_by k m xs)"
proof (induction xs arbitrary: m)
  case Nil
  then show ?case by simp
next
  case (Cons y ys)
  let ?m = "if k y > k m then y else m"
  have s: "k ?m \<le> k (max_by k ?m ys)" by (rule max_by_ge_start)
  from Cons.prems consider "x = m" | "x = y" | "x \<in> set ys" by auto
  then show ?case
  proof cases
    case 1
    with s show ?thesis by (simp split: if_splits)
  next
    case 2
    with s show ?thesis by (simp split: if_splits)
  next
    case 3
    then have "k x \<le> k (max_by k ?m ys)" by (intro Cons.IH) simp
    then show ?thesis by simp
  qed
qed

lemma lowest_price_min:
  assumes "prices \<noteq> []"
  shows "lowest_price prices \<in> set prices" "ob \<in> set prices \<Longrightarrow> price (lowest_price prices) \<le> price ob"
proof -
  from assms have p: "hd prices # tl prices = prices" by simp
  show "lowest_price prices \<in> set prices"
    using min_by_in[of price "hd prices" "tl prices"] unfolding p lowest_price_def .
  show "ob \<in> set prices \<Longrightarrow> price (lowest_price prices) \<le> price ob"
    using min_by_le[of ob "hd prices" "tl prices" price] unfolding p lowest_price_def .
qed

lemma highest_price_max:
  assumes "prices \<noteq> []"
  shows "highest_price prices \<in> set prices" "ob \<in> set prices \<Longrightarrow> price ob \<le> price (highest_price prices)"
proof -
  from assms have p: "hd prices # tl prices = prices" by simp
  show "highest_price prices \<in> set prices"
    using max_by_in[of price "hd prices" "tl prices"] unfolding p highest_price_def .
  show "ob \<in> set prices \<Longrightarrow> price ob \<le> price (highest_price prices)"
    using max_by_ge[of ob "hd prices" "tl prices" price] unfolding p highest_price_def .
qed

lemma analyze_pair_short: "length prices < 2 \<Longrightarrow> analyze_pair thr k prices = Inr None"
  by (simp add: analyze_pair_def)

lemma analyze_pair_zero:
  "2 \<le> length prices \<Longrightarrow> price (lowest_price prices) = 0 \<Longrightarrow>
   analyze_pair thr k prices = Inl ZeroDivisionError"
  by (simp add: analyze_pair_def Let_def)

lemma analyze_pair_formula:
  assumes "2 \<le> length prices" "price (lowest_price prices) \<noteq> 0" "split_key k = Inr (t0, t1)"
  shows "analyze_pair thr k prices =
     Inr (if cd_net (lowest_price prices) (highest_price prices) \<ge> thr
          then Some (cross_opportunity k t0 t1 (lowest_price prices) (highest_price prices))
          else None)"
  using assms
  by (simp add: analyze_pair_def Let_def cd_net_def cd_price_diff_pct_def cross_opportunity_def
      cd_gas_def)

lemma scannable_no_raise:
  assumes "length prices < 2 \<or>
        (price (lowest_price prices) \<noteq> 0 \<and>
         (case split_key k of Inl _ \<Rightarrow> False | Inr _ \<Rightarrow> True))"
  shows "analyze_pair thr k prices \<noteq> Inl e"
proof (cases "length prices < 2")
  case True
  then show ?thesis by (simp add: analyze_pair_short)
next
  case False
  with assms obtain t0 t1 where "price (lowest_price prices) \<noteq> 0" "split_key k = Inr (t0, t1)"
    by (auto split: sum.splits)
  with False show ?thesis by (simp add: analyze_pair_formula)
qed

lemma scan_pairs_scannable:
  "scannable pp \<Longrightarrow> scan_pairs thr pp acc = (acc @ concat (map (emitted_for thr) pp), None)"
proof (induction pp arbitrary: acc)
  case Nil
  show ?case by simp
next
  case (Cons kp pp)
  obtain k prices where kp: "kp = (k, prices)" by (cases kp)
  from Cons.prems have h: "length prices < 2 \<or>
        (price (lowest_price prices) \<noteq> 0 \<and>
         (case split_key k of Inl _ \<Rightarrow> False | Inr _ \<Rightarrow> True))" and r: "scannable pp"
    by (simp_all add: scannable_def kp)
  note ih = Cons.IH[OF r]
  show ?case
  proof (cases "analyze_pair thr k prices")
    case (Inl e)
    with scannable_no_raise[OF h, of thr e] show ?thesis by simp
  next
    case (Inr r)
    then show ?thesis by (cases r) (simp_all add: kp ih emitted_for_def)
  qed
qed

lemma example_obs_sel:
  "price (example_obs dex network i r0 r1 f) = guarded_div r1 r0"
  "obs_fee (example_obs dex network i r0 r1 f) = f"
  by (simp_all add: example_obs_def)

lemma two_token_pool_entry:
  "uniswap_entry dex network (two_token_pool i t0 t1 r0 r1) =
     Inr (pair_key t0 t1, example_obs dex network i r0 r1 0.003)"
  by (simp add: uniswap_entry_def two_token_pool_def empty_pool_def example_obs_def)

lemma zero_fee_pool_entry:
  "uniswap_entry dex network (zero_fee_pool i t0 t1 r0 r1) =
     Inr (pair_key t0 t1, example_obs dex network i r0 r1 0)"
  by (simp add: uniswap_entry_def zero_fee_pool_def two_token_pool_def empty_pool_def example_obs_def)

lemma example_pools_uniswap_like:
  "uniswap_like (two_token_pool i t0 t1 r0 r1)" "uniswap_like (zero_fee_pool i t0 t1 r0 r1)"
  by (simp_all add: uniswap_like_def zero_fee_pool_def two_token_pool_def empty_pool_def)

lemma uniswap_pool_prices:
  "uniswap_like p \<Longrightarrow> uniswap_entry dex network p = Inr (k, ob) \<Longrightarrow>
   pool_prices dex network p pp = Inr (append_price k ob pp)"
  by (simp add: pool_prices_def)

lemmas example_pool_prices =
  uniswap_pool_prices[OF example_pools_uniswap_like(1) two_token_pool_entry]
  uniswap_pool_prices[OF example_pools_uniswap_like(2) zero_fee_pool_entry]

lemma example_keys:
  "split_key ''uniswap_ethereum'' = Inr (''uniswap'', ''ethereum'')"
  "split_key ''sushiswap_ethereum'' = Inr (''sushiswap'', ''ethereum'')"
  "split_key ''WETH_USDC'' = Inr (''WETH'', ''USDC'')"
  "split_key ''USDC_WETH'' = Inr (''USDC'', ''WETH'')"
  "split_key ''LINK_DAI'' = Inr (''LINK'', ''DAI'')"
  by (simp_all add: split_key_def unpack2_def)

lemma scenario_a_prices:
  "extract_pair_prices scenario_a_pools =
     Inr [(''WETH_USDC'', [example_obs ''uniswap'' ''ethereum'' ''0x1'' 1 2000 0,
                           example_obs ''sushiswap'' ''ethereum'' ''0x2'' 1 2050 0])]"
  by (simp add: extract_pair_prices_def scenario_a_pools_def example_keys example_pool_prices
      append_price_def pair_key_def)

lemma zero_reserve_prices:
  "extract_pair_prices zero_reserve_pools =
     Inr [(''WETH_USDC'', [example_obs ''uniswap'' ''ethereum'' ''0x1'' 0 1000 0.003,
                           example_obs ''sushiswap'' ''ethereum'' ''0x2'' 1 2000 0.003])]"
  by (simp add: extract_pair_prices_def zero_reserve_pools_def example_keys example_pool_prices
      append_price_def pair_key_def)

lemma blocked_prices:
  "extract_pair_prices blocked_pools =
     Inr [(''LINK_DAI'', [example_obs ''uniswap'' ''ethereum'' ''0x3'' 0 1000 0.003,
                          example_obs ''sushiswap'' ''ethereum'' ''0x4'' 1 7 0.003]),
          (''WETH_USDC'', [example_obs ''uniswap'' ''ethereum'' ''0x1'' 1 2000 0,
                           example_obs ''sushiswap'' ''ethereum'' ''0x2'' 1 2050 0])]"
  by (simp add: extract_pair_prices_def blocked_pools_def example_keys example_pool_prices
      append_price_def pair_key_def)

lemma swapped_prices:
  "extract_pair_prices swapped_pools =
     Inr [(''WETH_USDC'', [example_obs ''uniswap'' ''ethereum'' ''0x1'' 1 2000 0.003]),
          (''USDC_WETH'', [example_obs ''sushiswap'' ''ethereum'' ''0x2'' 2100 1 0.003])]"
  by (simp add: extract_pair_prices_def swapped_pools_def example_keys example_pool_prices
      append_price_def pair_key_def)

lemma lowest_highest_two:
  "lowest_price [a, b] = (if price b < price a then b else a)"
  "highest_price [a, b] = (if price b > price a then b else a)"
  by (simp_all add: lowest_price_def highest_price_def)

lemma scenario_a_extremes:
  "lowest_price [example_obs ''uniswap'' ''ethereum'' ''0x1'' 1 2000 0,
                 example_obs ''sushiswap'' ''ethereum'' ''0x2'' 1 2050 0] =
     example_obs ''uniswap'' ''ethereum'' ''0x1'' 1 2000 0"
  "highest_price [example_obs ''uniswap'' ''ethereum'' ''0x1'' 1 2000 0,
                  example_obs ''sushiswap'' ''ethereum'' ''0x2'' 1 2050 0] =
     example_obs ''sushiswap'' ''ethereum'' ''0x2'' 1 2050 0"
  by (simp_all add: lowest_highest_two example_obs_sel guarded_div_def)

lemma zero_reserve_lowest:
  "0 \<le> r1' \<Longrightarrow>
   price (lowest_price [example_obs dex network i 0 r1 f, example_obs dex' network' i' 1 r1' f']) = 0"
  by (simp add: lowest_highest_two example_obs_sel guarded_div_def)

text \<open>
  C3 fails on the code. Two pools of the pair \<open>WETH_USDC\<close>, one with \<open>reserve0 = 0\<close>: its
  price is \<open>0\<close>, the lowest of the pair, and the scan ends with \<^verbatim>\<open>ZeroDivisionError\<close> in
  \<^verbatim>\<open>(highest - lowest) / lowest\<close>.
\<close>

theorem zero_reserve_raises:
  "extract_pair_prices zero_reserve_pools =
     Inr [(''WETH_USDC'', [example_obs ''uniswap'' ''ethereum'' ''0x1'' 0 1000 0.003,
                           example_obs ''sushiswap'' ''ethereum'' ''0x2'' 1 2000 0.003])] \<and>
   price (example_obs ''uniswap'' ''ethereum'' ''0x1'' 0 1000 0.003) = 0 \<and>
   analyze_cross_dex_opportunities 0.005 zero_reserve_pools [] = ([], Some ZeroDivisionError)"
  by (simp add: analyze_cross_dex_opportunities_def zero_reserve_prices analyze_pair_zero
      zero_reserve_lowest example_obs_sel guarded_div_def)

lemma cross_dex_scannable:
  assumes "extract_pair_prices all_pools = Inr pp" "scannable pp"
  shows "analyze_cross_dex_opportunities thr all_pools acc =
           (acc @ concat (map (emitted_for thr) pp), None)"
  by (simp add: analyze_cross_dex_opportunities_def assms(1) scan_pairs_scannable[OF assms(2)])

lemma scenario_diff:
  assumes "price buy = 2000" "price sell = 2050"
  shows "price_diff_pct (cross_opportunity k t0 t1 buy sell) = 0.025"
  by (simp add: cross_opportunity_def cd_price_diff_pct_def assms)

lemma scenario_net_profit:
  assumes "price buy = 2000" "price sell = 2050" "obs_fee buy = 0" "obs_fee sell = 0"
  shows "cd_net_profit_pct (cross_opportunity k t0 t1 buy sell) = 0.024"
  by (simp add: cross_opportunity_def cd_net_def cd_price_diff_pct_def assms)

lemma cross_opportunity_formula:
  "price_diff_pct (cross_opportunity k t0 t1 buy sell) = (price sell - price buy) / price buy \<and>
   cd_net_profit_pct (cross_opportunity k t0 t1 buy sell) =
     price_diff_pct (cross_opportunity k t0 t1 buy sell) - obs_fee buy - obs_fee sell - 0.001"
  by (simp add: cross_opportunity_def cd_net_def cd_price_diff_pct_def)

text \<open>
  Away from the two raising cases the scan follows section 4.2 of the specification. The buy
  side is an observation of minimal price and the sell side one of maximal price. A pair with fewer than two observations is passed over. For a pair with two
  observations or more, a non-zero lowest price and a key that splits into two symbols, an
  opportunity is emitted exactly when \<open>net_profit_pct \<ge> thr\<close>, with
  \<open>price_diff_pct = (sell.price - buy.price) / buy.price\<close> and
  \<open>net_profit_pct = price_diff_pct - buy.fee - sell.fee - 0.001\<close>. When every pair is of that
  kind, the scan appends exactly these opportunities, in the order of the pairs. For prices
  \<open>2000\<close> and \<open>2050\<close>, \<open>price_diff_pct = 0.025\<close>, and with zero fees
  \<open>net_profit_pct = 0.024\<close>.
\<close>

lemma cross_dex_scan_formula:
  "(prices \<noteq> [] \<longrightarrow>
      lowest_price prices \<in> set prices \<and> highest_price prices \<in> set prices \<and>
      (\<forall>ob \<in> set prices. price (lowest_price prices) \<le> price ob \<and>
                          price ob \<le> price (highest_price prices))) \<and>
   (length prices < 2 \<longrightarrow> analyze_pair thr k prices = Inr None) \<and>
   (2 \<le> length prices \<and> price (lowest_price prices) \<noteq> 0 \<and> split_key k = Inr (t0, t1) \<longrightarrow>
      analyze_pair thr k prices =
        Inr (if cd_net (lowest_price prices) (highest_price prices) \<ge> thr
             then Some (cross_opportunity k t0 t1 (lowest_price prices) (highest_price prices))
             else None)) \<and>
   (extract_pair_prices all_pools = Inr pp \<and> scannable pp \<longrightarrow>
      analyze_cross_dex_opportunities thr all_pools acc =
        (acc @ concat (map (emitted_for thr) pp), None)) \<and>
   price_diff_pct (cross_opportunity k t0 t1 buy sell) = (price sell - price buy) / price buy \<and>
   cd_net_profit_pct (cross_opportunity k t0 t1 buy sell) =
     price_diff_pct (cross_opportunity k t0 t1 buy sell) - obs_fee buy - obs_fee sell - 0.001 \<and>
   (price buy = 2000 \<and> price sell = 2050 \<longrightarrow>
      price_diff_pct (cross_opportunity k t0 t1 buy sell) = 0.025) \<and>
   (price buy = 2000 \<and> price sell = 2050 \<and> obs_fee buy = 0 \<and> obs_fee sell = 0 \<longrightarrow>
      cd_net_profit_pct (cross_opportunity k t0 t1 buy sell) = 0.024)"
proof (intro conjI impI ballI)
  assume "prices \<noteq> []"
  then show "lowest_price prices \<in> set prices" "highest_price prices \<in> set prices"
    by (rule lowest_price_min(1), rule highest_price_max(1))
next
  fix ob assume "prices \<noteq> []" "ob \<in> set prices"
  then show "price (lowest_price prices) \<le> price ob" "price ob \<le> price (highest_price prices)"
    by (rule lowest_price_min(2), rule highest_price_max(2))
next
  assume "length prices < 2"
  then show "analyze_pair thr k prices = Inr None" by (rule analyze_pair_short)
next
  assume "2 \<le> length prices \<and> price (lowest_price prices) \<noteq> 0 \<and> split_key k = Inr (t0, t1)"
  then show "analyze_pair thr k prices =
        Inr (if cd_net (lowest_price prices) (highest_price prices) \<ge> thr
             then Some (cross_opportunity k t0 t1 (lowest_price prices) (highest_price prices))
             else None)"
    using analyze_pair_formula by blast
next
  assume "extract_pair_prices all_pools = Inr pp \<and> scannable pp"
  then show "analyze_cross_dex_opportunities thr all_pools acc =
        (acc @ concat (map (emitted_for thr) pp), None)"
    using cross_dex_scannable by blast
next
  show "price_diff_pct (cross_opportunity k t0 t1 buy sell) = (price sell - price buy) / price buy"
    "cd_net_profit_pct (cross_opportunity k t0 t1 buy sell) =
     price_diff_pct (cross_opportunity k t0 t1 buy sell) - obs_fee buy - obs_fee sell - 0.001"
    using cross_opportunity_formula by blast+
next
  assume "price buy = 2000 \<and> price sell = 2050"
  then show "price_diff_pct (cross_opportunity k t0 t1 buy sell) = 0.025"
    using scenario_diff by blast
next
  assume "price buy = 2000 \<and> price sell = 2050 \<and> obs_fee buy = 0 \<and> obs_fee sell = 0"
  then show "cd_net_profit_pct (cross_opportunity k t0 t1 buy sell) = 0.024"
    using scenario_net_profit by blast
qed

lemma obs_ab_sel:
  "price obs_a = 2000" "price obs_b = 2050" "obs_fee obs_a = 0" "obs_fee obs_b = 0"
  by (simp_all add: obs_a_def obs_b_def example_obs_sel guarded_div_def)

lemma obs_ab_extremes: "lowest_price [obs_a, obs_b] = obs_a" "highest_price [obs_a, obs_b] = obs_b"
  by (simp_all add: lowest_highest_two obs_ab_sel)

lemma obs_ab_net: "cd_net obs_a obs_b = 0.024"
  by (simp add: cd_net_def cd_price_diff_pct_def obs_ab_sel)

lemma obs_ab_scannable: "scannable [(''WETH_USDC'', [obs_a, obs_b])]"
  by (simp add: scannable_def obs_ab_extremes obs_ab_sel example_keys)

text \<open>
  Scenario A: two pools with prices \<open>2000\<close> and \<open>2050\<close> and zero fees.
\<close>

lemma cross_dex_scan_formula_example:
  "extract_pair_prices scenario_a_pools = Inr [(''WETH_USDC'', [obs_a, obs_b])] \<and>
   scannable [(''WETH_USDC'', [obs_a, obs_b])] \<and>
   lowest_price [obs_a, obs_b] = obs_a \<and> highest_price [obs_a, obs_b] = obs_b \<and>
   analyze_pair default_threshold ''WETH_USDC'' [obs_a] = Inr None \<and>
   analyze_pair default_threshold ''WETH_USDC'' [obs_a, obs_b] =
     Inr (Some (cross_opportunity ''WETH_USDC'' ''WETH'' ''USDC'' obs_a obs_b)) \<and>
   analyze_cross_dex_opportunities default_threshold scenario_a_pools [] =
     ([CrossDex (cross_opportunity ''WETH_USDC'' ''WETH'' ''USDC'' obs_a obs_b)], None) \<and>
   price_diff_pct (cross_opportunity ''WETH_USDC'' ''WETH'' ''USDC'' obs_a obs_b) = 0.025 \<and>
   cd_net_profit_pct (cross_opportunity ''WETH_USDC'' ''WETH'' ''USDC'' obs_a obs_b) = 0.024"
proof -
  note t = cross_dex_scan_formula[of "[obs_a, obs_b]" default_threshold "''WETH_USDC''" "''WETH''" "''USDC''"
      scenario_a_pools "[(''WETH_USDC'', [obs_a, obs_b])]" "[]" obs_a obs_b]
  have x: "extract_pair_prices scenario_a_pools = Inr [(''WETH_USDC'', [obs_a, obs_b])]"
    by (simp only: scenario_a_prices obs_a_def obs_b_def)
  have p: "analyze_pair default_threshold ''WETH_USDC'' [obs_a, obs_b] =
     Inr (Some (cross_opportunity ''WETH_USDC'' ''WETH'' ''USDC'' obs_a obs_b))"
    using t by (simp add: obs_ab_extremes obs_ab_sel obs_ab_net example_keys default_threshold_def)
  have a: "analyze_cross_dex_opportunities default_threshold scenario_a_pools [] =
     ([CrossDex (cross_opportunity ''WETH_USDC'' ''WETH'' ''USDC'' obs_a obs_b)], None)"
    using t x obs_ab_scannable by (simp add: emitted_for_def p)
  have d: "price_diff_pct (cross_opportunity ''WETH_USDC'' ''WETH'' ''USDC'' obs_a obs_b) = 0.025"
    "cd_net_profit_pct (cross_opportunity ''WETH_USDC'' ''WETH'' ''USDC'' obs_a obs_b) = 0.024"
    using t by (simp_all add: obs_ab_sel)
  have o: "analyze_pair default_threshold ''WETH_USDC'' [obs_a] = Inr None"
    using cross_dex_scan_formula[of "[obs_a]" default_threshold "''WETH_USDC''"] by simp
  show ?thesis
    by (intro conjI x obs_ab_scannable obs_ab_extremes o p a d)
qed

text \<open>
  C1 fails on the code. The pair \<open>WETH_USDC\<close> has two observations and a net profit of
  \<open>0.024\<close>, above the threshold, and yet nothing is emitted: the scan ends at the pair before
  it with \<^verbatim>\<open>ZeroDivisionError\<close> in \<^verbatim>\<open>(highest - lowest) / lowest\<close>, because the lowest price
  there is the \<open>0\<close> that the price computation gives a pool with an empty reserve.
\<close>

theorem cross_dex_scan_blocked:
  "extract_pair_prices blocked_pools =
     Inr [(''LINK_DAI'', [obs_c, obs_d]),
          (''WETH_USDC'', [obs_a, obs_b])] \<and>
   lowest_price [obs_a, obs_b] = obs_a \<and> highest_price [obs_a, obs_b] = obs_b \<and>
   (price obs_b - price obs_a) / price obs_a - obs_fee obs_a - obs_fee obs_b - 0.001 = 0.024 \<and>
   default_threshold \<le> 0.024 \<and>
   analyze_cross_dex_opportunities default_threshold blocked_pools [] = ([], Some ZeroDivisionError)"
proof -
  have x: "extract_pair_prices blocked_pools =
     Inr [(''LINK_DAI'', [obs_c, obs_d]),
          (''WETH_USDC'', [obs_a, obs_b])]"
    by (simp only: blocked_prices obs_a_def obs_b_def obs_c_def obs_d_def)
  have n: "(price obs_b - price obs_a) / price obs_a - obs_fee obs_a - obs_fee obs_b - 0.001 = 0.024"
    by (simp add: obs_ab_sel)
  have z: "analyze_pair default_threshold ''LINK_DAI'' [obs_c, obs_d] =
           Inl ZeroDivisionError"
    by (rule analyze_pair_zero) (simp_all add: obs_c_def obs_d_def zero_reserve_lowest)
  have a: "analyze_cross_dex_opportunities default_threshold blocked_pools [] = ([], Some ZeroDivisionError)"
    by (simp add: analyze_cross_dex_opportunities_def x z)
  have l: "default_threshold \<le> 0.024" by (simp add: default_threshold_def)
  show ?thesis
    by (intro conjI x obs_ab_extremes n l a)
qed

lemma pair_key_prefix:
  assumes "CHR ''_'' \<notin> set a"
  shows "takeWhile (\<lambda>x. x \<noteq> CHR ''_'') (pair_key a b) = a"
proof -
  have "takeWhile (\<lambda>x. x \<noteq> CHR ''_'') (a @ CHR ''_'' # b) =
        a @ takeWhile (\<lambda>x. x \<noteq> CHR ''_'') (CHR ''_'' # b)"
    using assms by (intro takeWhile_append2) auto
  then show ?thesis by (simp add: pair_key_def)
qed

lemma pair_key_swapped:
  assumes "CHR ''_'' \<notin> set a" "CHR ''_'' \<notin> set b" "a \<noteq> b"
  shows "pair_key a b \<noteq> pair_key b a"
proof
  assume "pair_key a b = pair_key b a"
  then have "takeWhile (\<lambda>x. x \<noteq> CHR ''_'') (pair_key a b) =
             takeWhile (\<lambda>x. x \<noteq> CHR ''_'') (pair_key b a)" by simp
  then have "a = b" by (simp only: pair_key_prefix[OF assms(1)] pair_key_prefix[OF assms(2)])
  with assms(3) show False by simp
qed

lemma uniswap_entry_key:
  assumes "uniswap_entry dex network p = Inr (k, ob)"
  shows "\<exists>t0 t1. token0 p = Some t0 \<and> token1 p = Some t1 \<and> k = t0 @ ''_'' @ t1"
  using assms by (auto simp: uniswap_entry_def pair_key_def split: option.splits)

lemma uniswap_entry_like:
  assumes "uniswap_entry dex network p = Inr (k, ob)"
  shows "uniswap_like p"
  using assms by (auto simp: uniswap_entry_def uniswap_like_def split: option.splits)

lemma append_price_two:
  "append_price k2 ob2 (append_price k1 ob1 []) =
     (if k1 = k2 then [(k1, [ob1, ob2])] else [(k1, [ob1]), (k2, [ob2])])"
  by (simp add: append_price_def)

lemma extract_two_groups:
  assumes "split_key key1 = Inr (d1, n1)" "split_key key2 = Inr (d2, n2)"
    "uniswap_entry d1 n1 p = Inr (k1, ob1)" "uniswap_entry d2 n2 q = Inr (k2, ob2)"
  shows "extract_pair_prices [(key1, [p]), (key2, [q])] =
           Inr (if k1 = k2 then [(k1, [ob1, ob2])] else [(k1, [ob1]), (k2, [ob2])])"
proof -
  note pp = uniswap_pool_prices[OF uniswap_entry_like[OF assms(3)] assms(3)]
  note pq = uniswap_pool_prices[OF uniswap_entry_like[OF assms(4)] assms(4)]
  show ?thesis
    unfolding append_price_two[symmetric]
    by (simp add: extract_pair_prices_def assms(1,2) pp pq)
qed

lemma same_order_key:
  assumes "uniswap_entry d1 n1 p = Inr (k1, ob1)" "uniswap_entry d2 n2 q = Inr (k2, ob2)"
    "token0 p = token0 q" "token1 p = token1 q"
  shows "k1 = k2"
  using uniswap_entry_key[OF assms(1)] uniswap_entry_key[OF assms(2)] assms(3,4) by auto

lemma swapped_order_key:
  assumes "uniswap_entry d1 n1 p = Inr (k1, ob1)" "uniswap_entry d2 n2 q = Inr (k2, ob2)"
    "token0 p = Some a" "token1 p = Some b" "token0 q = Some b" "token1 q = Some a"
    "a \<noteq> b" "CHR ''_'' \<notin> set a" "CHR ''_'' \<notin> set b"
  shows "k1 \<noteq> k2"
proof -
  from uniswap_entry_key[OF assms(1)] assms(3,4) have "k1 = pair_key a b"
    by (auto simp: pair_key_def)
  moreover from uniswap_entry_key[OF assms(2)] assms(5,6) have "k2 = pair_key b a"
    by (auto simp: pair_key_def)
  ultimately show ?thesis using pair_key_swapped[OF assms(8,9,7)] by simp
qed

lemma separate_keys_no_scan:
  assumes "extract_pair_prices all_pools = Inr [(k1, [ob1]), (k2, [ob2])]"
  shows "analyze_cross_dex_opportunities thr all_pools acc = (acc, None)"
  by (simp add: analyze_cross_dex_opportunities_def assms analyze_pair_short)

text \<open>
  C4, as the code has it. The pair key is \<^verbatim>\<open>token0_token1\<close>, in this order. The observations
  of two Uniswap-like pools share a key when the pools list the same symbol as \<open>token0\<close> and the
  same symbol as \<open>token1\<close>. When they list two different symbols without underscores in
  opposite orders, the keys differ, each key has one observation, and the scan of the two pools
  compares nothing and emits nothing.
\<close>

theorem pair_key_grouping:
  "(uniswap_entry dex network p = Inr (k, ob) \<longrightarrow>
      (\<exists>t0 t1. token0 p = Some t0 \<and> token1 p = Some t1 \<and> k = t0 @ ''_'' @ t1)) \<and>
   (split_key key1 = Inr (d1, n1) \<and> split_key key2 = Inr (d2, n2) \<and>
    uniswap_entry d1 n1 p = Inr (k1, ob1) \<and> uniswap_entry d2 n2 q = Inr (k2, ob2) \<longrightarrow>
      extract_pair_prices [(key1, [p]), (key2, [q])] =
        Inr (if k1 = k2 then [(k1, [ob1, ob2])] else [(k1, [ob1]), (k2, [ob2])]) \<and>
      (token0 p = token0 q \<and> token1 p = token1 q \<longrightarrow> k1 = k2) \<and>
      (token0 p = Some a \<and> token1 p = Some b \<and> token0 q = Some b \<and> token1 q = Some a \<and>
       a \<noteq> b \<and> CHR ''_'' \<notin> set a \<and> CHR ''_'' \<notin> set b \<longrightarrow>
         k1 \<noteq> k2 \<and>
         analyze_cross_dex_opportunities thr [(key1, [p]), (key2, [q])] acc = (acc, None)))"
proof (intro conjI impI)
  assume "uniswap_entry dex network p = Inr (k, ob)"
  then show "\<exists>t0 t1. token0 p = Some t0 \<and> token1 p = Some t1 \<and> k = t0 @ ''_'' @ t1"
    by (rule uniswap_entry_key)
next
  assume h: "split_key key1 = Inr (d1, n1) \<and> split_key key2 = Inr (d2, n2) \<and>
    uniswap_entry d1 n1 p = Inr (k1, ob1) \<and> uniswap_entry d2 n2 q = Inr (k2, ob2)"
  then show x: "extract_pair_prices [(key1, [p]), (key2, [q])] =
        Inr (if k1 = k2 then [(k1, [ob1, ob2])] else [(k1, [ob1]), (k2, [ob2])])"
    using extract_two_groups by blast
  {
    assume "token0 p = token0 q \<and> token1 p = token1 q"
    with h show "k1 = k2" using same_order_key by blast
  }
  {
    assume s: "token0 p = Some a \<and> token1 p = Some b \<and> token0 q = Some b \<and> token1 q = Some a \<and>
       a \<noteq> b \<and> CHR ''_'' \<notin> set a \<and> CHR ''_'' \<notin> set b"
    with h show n: "k1 \<noteq> k2" using swapped_order_key by blast
    with x have "extract_pair_prices [(key1, [p]), (key2, [q])] = Inr [(k1, [ob1]), (k2, [ob2])]"
      by simp
    then show "analyze_cross_dex_opportunities thr [(key1, [p]), (key2, [q])] acc = (acc, None)"
      by (rule separate_keys_no_scan)
  }
qed

lemma swapped_tokens:
  "token0 (two_token_pool i t0 t1 r0 r1) = Some t0" "token1 (two_token_pool i t0 t1 r0 r1) = Some t1"
  by (simp_all add: two_token_pool_def empty_pool_def)

text \<open>
  A \<open>WETH/USDC\<close> pool next to a \<open>USDC/WETH\<close> pool, and next to a second \<open>WETH/USDC\<close> pool.
\<close>

theorem pair_key_grouping_witness:
  "split_key ''uniswap_ethereum'' = Inr (''uniswap'', ''ethereum'') \<and>
   split_key ''sushiswap_ethereum'' = Inr (''sushiswap'', ''ethereum'') \<and>
   uniswap_entry ''uniswap'' ''ethereum'' (two_token_pool ''0x1'' ''WETH'' ''USDC'' 1 2000) =
     Inr (''WETH_USDC'', obs_e) \<and>
   uniswap_entry ''sushiswap'' ''ethereum'' (two_token_pool ''0x2'' ''USDC'' ''WETH'' 2100 1) =
     Inr (''USDC_WETH'', obs_f) \<and>
   uniswap_entry ''sushiswap'' ''ethereum'' (two_token_pool ''0x1'' ''WETH'' ''USDC'' 1 2000) =
     Inr (''WETH_USDC'', example_obs ''sushiswap'' ''ethereum'' ''0x1'' 1 2000 0.003) \<and>
   ''WETH_USDC'' \<noteq> ''USDC_WETH'' \<and>
   analyze_cross_dex_opportunities default_threshold
     [(''uniswap_ethereum'', [two_token_pool ''0x1'' ''WETH'' ''USDC'' 1 2000]),
      (''sushiswap_ethereum'', [two_token_pool ''0x2'' ''USDC'' ''WETH'' 2100 1])] [] = ([], None) \<and>
   extract_pair_prices
     [(''uniswap_ethereum'', [two_token_pool ''0x1'' ''WETH'' ''USDC'' 1 2000]),
      (''sushiswap_ethereum'', [two_token_pool ''0x1'' ''WETH'' ''USDC'' 1 2000])] =
     Inr [(''WETH_USDC'', [obs_e, example_obs ''sushiswap'' ''ethereum'' ''0x1'' 1 2000 0.003])]"
proof -
  let ?p = "two_token_pool ''0x1'' ''WETH'' ''USDC'' 1 2000"
  let ?q = "two_token_pool ''0x2'' ''USDC'' ''WETH'' 2100 1"
  have ep: "uniswap_entry ''uniswap'' ''ethereum'' ?p = Inr (''WETH_USDC'', obs_e)"
    by (simp add: two_token_pool_entry pair_key_def obs_e_def)
  have eq: "uniswap_entry ''sushiswap'' ''ethereum'' ?q = Inr (''USDC_WETH'', obs_f)"
    by (simp add: two_token_pool_entry pair_key_def obs_f_def)
  have ep': "uniswap_entry ''sushiswap'' ''ethereum'' ?p =
     Inr (''WETH_USDC'', example_obs ''sushiswap'' ''ethereum'' ''0x1'' 1 2000 0.003)"
    by (simp add: two_token_pool_entry pair_key_def)
  have u: "''WETH'' \<noteq> ''USDC''" "CHR ''_'' \<notin> set ''WETH''" "CHR ''_'' \<notin> set ''USDC''"
    by simp_all
  note sw = pair_key_grouping[of "''uniswap''" "''ethereum''" ?p "''WETH_USDC''" obs_e
      "''uniswap_ethereum''" "''uniswap''" "''ethereum''" "''sushiswap_ethereum''" "''sushiswap''"
      "''ethereum''" "''WETH_USDC''" obs_e ?q "''USDC_WETH''" obs_f "''WETH''" "''USDC''"
      default_threshold "[]"]
  note sm = pair_key_grouping[of "''uniswap''" "''ethereum''" ?p "''WETH_USDC''" obs_e
      "''uniswap_ethereum''" "''uniswap''" "''ethereum''" "''sushiswap_ethereum''" "''sushiswap''"
      "''ethereum''" "''WETH_USDC''" obs_e ?p "''WETH_USDC''"
      "example_obs ''sushiswap'' ''ethereum'' ''0x1'' 1 2000 0.003" "''WETH''" "''USDC''"
      default_threshold "[]"]
  have n: "''WETH_USDC'' \<noteq> ''USDC_WETH''"
    and a: "analyze_cross_dex_opportunities default_threshold
      [(''uniswap_ethereum'', [?p]), (''sushiswap_ethereum'', [?q])] [] = ([], None)"
    using sw ep eq u example_keys(1,2) by (simp_all only: swapped_tokens simp_thms)
  have x: "extract_pair_prices [(''uniswap_ethereum'', [?p]), (''sushiswap_ethereum'', [?p])] =
     Inr [(''WETH_USDC'', [obs_e, example_obs ''sushiswap'' ''ethereum'' ''0x1'' 1 2000 0.003])]"
    using sm ep ep' example_keys(1,2) by (simp only: simp_thms if_True)
  show ?thesis
    by (intro conjI example_keys(1,2) ep eq ep' n a x)
qed

text \<open>
  C4 as stated fails: a \<open>WETH/USDC\<close> pool and a \<open>USDC/WETH\<close> pool end up under two keys, and
  the scan emits nothing for them.
\<close>

theorem pair_key_swapped_counterexample:
  "extract_pair_prices swapped_pools =
     Inr [(''WETH_USDC'', [obs_e]), (''USDC_WETH'', [obs_f])] \<and>
   ''WETH_USDC'' \<noteq> ''USDC_WETH'' \<and>
   analyze_cross_dex_opportunities default_threshold swapped_pools [] = ([], None)"
proof -
  have x: "extract_pair_prices swapped_pools =
     Inr [(''WETH_USDC'', [obs_e]), (''USDC_WETH'', [obs_f])]"
    by (simp only: swapped_prices obs_e_def obs_f_def)
  have n: "''WETH_USDC'' \<noteq> ''USDC_WETH''" by simp
  show ?thesis
    by (intro conjI x n separate_keys_no_scan[OF x])
qed

section \<open>Properties of the triangular scan\<close>

subsection \<open>Rounding\<close>














subsection \<open>The scan of one graph\<close>















subsection \<open>The scan of a snapshot\<close>











subsection \<open>Scenario B\<close>




subsection \<open>The example triangle\<close>


























subsection \<open>What the scan emits\<close>















end
